theory Spec2Isabelle
  imports Main "HOL-Library.Word" "HOL-Library.Char_ord" "HOL-Library.List_Lexorder"
begin

unbundle bit_operations_syntax

section \<open>File descriptors, errors and verdicts\<close>

text \<open>
  A Go \<open>error\<close> value that is not \<open>nil\<close>: \<open>io.EOF\<close>, or an error of the operating
  system with its message. A Go variable of type \<open>error\<close> is an \<open>error option\<close>, with
  \<open>None\<close> for \<open>nil\<close>.
\<close>

datatype error = EOF | OSError string

type_synonym byte = "8 word"

text \<open>
  \<open>os.FileMode\<close> is a \<open>uint32\<close>; the constants are those of package \<open>os\<close>.
  \<open>Perm\<close> keeps the nine permission bits, \<open>IsRegular\<close> holds when no type bit is set.
\<close>

type_synonym FileMode = "32 word"

definition ModeDir :: FileMode where "ModeDir = push_bit 31 1"





text \<open>
  \<open>time.Time\<close> and \<open>time.Duration\<close> belong to Go's standard library. A \<open>Time\<close> is
  taken as the instant it denotes, counted in nanoseconds on an unbounded integer line, and a
  \<open>Duration\<close> as a number of nanoseconds; \<open>Add\<close> and \<open>Before\<close> have their documented
  meaning on instants.
\<close>

type_synonym Time = int




text \<open>
  \<open>os.FileInfo\<close> is the interface of Go's standard library that describes one file:
  its base name, its length in bytes (an \<open>int64\<close>), its mode bits, its modification time
  and whether it is a directory.
\<close>

record FileInfo =
  Name :: string
  Size :: "64 word"
  Mode :: FileMode
  ModTime :: Time
  IsDir :: bool

text \<open>
  Modelled from the spec: the declaration of \<open>FileInfoPath\<close> is not among the source
  files. The spec's file-entry descriptor has a path, a base name, whether it is a directory, a
  byte size, a last-modification timestamp and permission bits; the rank functions read them
  through the methods of \<open>os.FileInfo\<close> and through \<open>Path()\<close>, so the descriptor is
  a \<open>FileInfo\<close> together with its path.
\<close>

record FileInfoPath = FileInfo +
  Path :: string

text \<open>
  A call of a \<open>FileRank\<close> either returns its \<open>bool\<close>, or it does not return because it
  called \<open>t.Fatal(err)\<close> on the \<open>*testing.T\<close> it was built with, which marks that test
  as failed with \<open>err\<close> and stops the goroutine. \<open>'t\<close> is the type of that capability.
\<close>

datatype 't verdict = Returned bool | Fatal 't error

type_synonym 't FileRank = "FileInfoPath \<Rightarrow> FileInfoPath \<Rightarrow> 't verdict"

section \<open>Rank primitives\<close>

definition ByName :: "'t FileRank" where
  "ByName left right = Returned (Name left < Name right)"

definition ByDir :: "'t FileRank" where
  "ByDir left right = Returned (IsDir left \<and> \<not> IsDir right)"




section \<open>The content comparator\<close>

text \<open>
  A \<open>bufio.Reader\<close> over an opened file: the bytes it will still deliver, and the error
  that the read after the last of them returns (\<open>EOF\<close> at the end of the file, another error
  when reading fails). \<open>ReadByte\<close> returns the pair of Go, a byte and an error, and the
  reader advanced.
\<close>

datatype Reader = Reader "byte list" error

fun ReadByte :: "Reader \<Rightarrow> (byte \<times> error option) \<times> Reader" where
  "ReadByte (Reader [] e) = ((0, Some e), Reader [] e)"
| "ReadByte (Reader (b # bs) e) = ((b, None), Reader bs e)"

fun pending :: "Reader \<Rightarrow> nat" where
  "pending (Reader bs e) = length bs"

function ByContent_loop :: "Reader \<Rightarrow> Reader \<Rightarrow> bool" where
  "ByContent_loop leftBuf rightBuf =
     (case ReadByte rightBuf of ((rByte, err), rightBuf') \<Rightarrow>
        if err \<noteq> None then False
        else (case ReadByte leftBuf of ((lByte, err), leftBuf') \<Rightarrow>
          if err \<noteq> None then True
          else if lByte = rByte then ByContent_loop leftBuf' rightBuf'
          else if lByte < rByte then True
          else False))"
  by pat_completeness auto
termination
  apply (relation "measure (\<lambda>(leftBuf, rightBuf). pending rightBuf)")
   apply simp
  subgoal for leftBuf rightBuf
    apply (cases rightBuf)
    subgoal for bs e
      by (cases bs) auto
    done
  done

declare ByContent_loop.simps [simp del]

text \<open>
  \<open>os.Open\<close> is answered by the file system \<open>files\<close>: for a path, the error of the open
  or the reader over the opened file. \<open>t\<close> is the \<open>*testing.T\<close> given to the factory.
  The deferred \<open>Close\<close> calls do not change the result and are left out.
\<close>

definition ByContent :: "'t \<Rightarrow> (string \<Rightarrow> error + Reader) \<Rightarrow> 't FileRank" where
  "ByContent t files left right =
     (case files (Path left) of
        Inl err \<Rightarrow> Fatal t err
      | Inr leftBuf \<Rightarrow>
          (case files (Path right) of
             Inl err \<Rightarrow> Fatal t err
           | Inr rightBuf \<Rightarrow> Returned (ByContent_loop leftBuf rightBuf)))"

section \<open>Composition\<close>

fun Less :: "FileInfoPath \<Rightarrow> FileInfoPath \<Rightarrow> 't FileRank list \<Rightarrow> 't verdict" where
  "Less left right [] = Returned False"
| "Less left right (cmp # cmps) =
     (case cmp left right of
        Fatal t err \<Rightarrow> Fatal t err
      | Returned b \<Rightarrow> if b then Returned True else Less left right cmps)"

section \<open>The temporary-directory lifecycle\<close>

subsection \<open>The world outside the program\<close>

text \<open>
  The lifecycle functions act on the file system and on the working directory of the process
  through Go's standard library. \<open>call\<close> lists the calls they make; the \<open>world\<close> is the
  working directory of the process and the calls made so far, oldest first.
\<close>

datatype call =
    SysTempDir
  | SysGetwd
  | SysChdir string
  | SysChmod string FileMode
  | SysRemove string
  | SysRemoveAll string
  | SysWalk string

record world =
  cwd :: string
  calls :: "call list"

text \<open>
  The file tree that \<open>filepath.Walk\<close> finds: an entry with its \<open>FileInfo\<close> and, for a
  directory, its entries in the lexical order of their names, in which Walk visits them.
\<close>

datatype node = Node FileInfo "node list"

fun info :: "node \<Rightarrow> FileInfo" where
  "info (Node fi ents) = fi"

text \<open>
  The environment answers every call, as a function of the call and of the world at the call,
  so an answer may depend on everything that was done before: \<open>fails\<close> is the error of the
  call (\<open>None\<close> when it succeeds), \<open>TempDir_name\<close> the name of the directory that a
  successful \<open>ioutil.TempDir\<close> creates, \<open>Lstat_tree\<close> the tree found under a path.
\<close>

text \<open>
  Modelled from the spec: \<open>TreeCopy\<close> and \<open>TreeCreate\<close> are functions of this
  repository that are not among the source files: the tree-copy collaborator
  \<open>copyTree(sourcePath, destinationPath) -> failure?\<close> and the declarative tree builder
  \<open>buildTree(configStream) -> failure?\<close>. They are parameters of the environment: any
  function from the world to an error and a new world.
\<close>

record env =
  fails :: "call \<Rightarrow> world \<Rightarrow> error option"
  TempDir_name :: "world \<Rightarrow> string"
  Lstat_tree :: "string \<Rightarrow> world \<Rightarrow> node"
  TreeCopy :: "string \<Rightarrow> string \<Rightarrow> world \<Rightarrow> error option \<times> world"
  TreeCreate :: "Reader \<Rightarrow> world \<Rightarrow> error option \<times> world"

text \<open>
  A Go function returns, or it ends the process: \<open>log.Fatalln(err)\<close> prints \<open>err\<close> and
  exits, and a method call on a \<open>nil\<close> interface value or a call of a \<open>nil\<close> function
  panics. Both keep the state reached.
\<close>

datatype crash = LogFatal error | NilPanic

datatype ('a, 's) outcome = Return 'a 's | Crash crash 's

fun after :: "('a, 's) outcome \<Rightarrow> ('a \<Rightarrow> 's \<Rightarrow> ('b, 's) outcome) \<Rightarrow> ('b, 's) outcome" where
  "after (Return x s) f = f x s"
| "after (Crash c s) f = Crash c s"

definition record_call :: "call \<Rightarrow> world \<Rightarrow> world" where
  "record_call c w = w\<lparr>calls := calls w @ [c]\<rparr>"

definition ioutil_TempDir :: "env \<Rightarrow> world \<Rightarrow> (string \<times> error option) \<times> world" where
  "ioutil_TempDir env w =
     (case fails env SysTempDir w of
        Some e \<Rightarrow> (('''', Some e), record_call SysTempDir w)
      | None \<Rightarrow> ((TempDir_name env w, None), record_call SysTempDir w))"

definition os_Getwd :: "env \<Rightarrow> world \<Rightarrow> (string \<times> error option) \<times> world" where
  "os_Getwd env w =
     (case fails env SysGetwd w of
        Some e \<Rightarrow> (('''', Some e), record_call SysGetwd w)
      | None \<Rightarrow> ((cwd w, None), record_call SysGetwd w))"

definition os_Chdir :: "env \<Rightarrow> string \<Rightarrow> world \<Rightarrow> error option \<times> world" where
  "os_Chdir env dir w =
     (case fails env (SysChdir dir) w of
        Some e \<Rightarrow> (Some e, record_call (SysChdir dir) w)
      | None \<Rightarrow> (None, (record_call (SysChdir dir) w)\<lparr>cwd := dir\<rparr>))"

definition os_Chmod :: "env \<Rightarrow> string \<Rightarrow> FileMode \<Rightarrow> world \<Rightarrow> error option \<times> world" where
  "os_Chmod env name m w = (fails env (SysChmod name m) w, record_call (SysChmod name m) w)"

definition os_Remove :: "env \<Rightarrow> string \<Rightarrow> world \<Rightarrow> error option \<times> world" where
  "os_Remove env name w = (fails env (SysRemove name) w, record_call (SysRemove name) w)"

definition os_RemoveAll :: "env \<Rightarrow> string \<Rightarrow> world \<Rightarrow> error option \<times> world" where
  "os_RemoveAll env path w = (fails env (SysRemoveAll path) w, record_call (SysRemoveAll path) w)"

subsection \<open>filepath.Walk\<close>

text \<open>
  \<open>filepath.Walk\<close> belongs to Go's standard library and is modelled by its documentation:
  it calls \<open>walkFn\<close> for each file or directory in the tree rooted at \<open>root\<close>, \<open>root\<close>
  included, a directory before its entries and the entries in lexical order; the path of an
  entry is the path of its directory joined with its name; the first error that \<open>walkFn\<close>
  returns ends the walk and is the result. When the \<open>Lstat\<close> of \<open>root\<close> fails,
  \<open>walkFn\<close> is called once, with a \<open>nil\<close> \<open>FileInfo\<close> and that error. The tree walked
  is the one found when the walk starts, and reading a directory that the walk has reached is
  taken to succeed. (\<open>filepath.SkipDir\<close> is not among the errors of the model: the calls
  of the operating system never return it.)

  The state that \<open>walkFn\<close> works on is the slice \<open>dirs\<close> that the closure captured,
  and the world.
\<close>

definition Join :: "string \<Rightarrow> string \<Rightarrow> string" where
  "Join dir name = dir @ ''/'' @ name"

type_synonym walk_state = "string list \<times> world"

type_synonym WalkFunc =
  "string \<Rightarrow> FileInfo option \<Rightarrow> error option \<Rightarrow> walk_state \<Rightarrow> (error option, walk_state) outcome"

fun walk :: "WalkFunc \<Rightarrow> string \<Rightarrow> node \<Rightarrow> walk_state \<Rightarrow> (error option, walk_state) outcome"
  and walk_entries :: "WalkFunc \<Rightarrow> string \<Rightarrow> node list \<Rightarrow> walk_state \<Rightarrow> (error option, walk_state) outcome"
where
  "walk walkFn path (Node fi ents) st =
     after (walkFn path (Some fi) None st) (\<lambda>err st'.
       if err \<noteq> None then Return err st'
       else if \<not> IsDir fi then Return None st'
       else walk_entries walkFn path ents st')"
| "walk_entries walkFn path [] st = Return None st"
| "walk_entries walkFn path (n # ns) st =
     after (walk walkFn (Join path (Name (info n))) n st) (\<lambda>err st'.
       if err \<noteq> None then Return err st'
       else walk_entries walkFn path ns st')"

definition filepath_Walk :: "env \<Rightarrow> string \<Rightarrow> WalkFunc \<Rightarrow> walk_state \<Rightarrow> (error option, walk_state) outcome" where
  "filepath_Walk env root walkFn st =
     (case st of (dirs, w) \<Rightarrow>
        (case fails env (SysWalk root) w of
           Some e \<Rightarrow> walkFn root None (Some e) (dirs, record_call (SysWalk root) w)
         | None \<Rightarrow> walk walkFn root (Lstat_tree env root w) (dirs, record_call (SysWalk root) w)))"

subsection \<open>Creation and teardown\<close>

text \<open>
  The function literal that the teardown gives to \<open>filepath.Walk\<close>. \<open>fi.IsDir()\<close> on a
  \<open>nil\<close> \<open>FileInfo\<close> panics; \<open>448\<close> is the mode \<open>0700\<close>.
\<close>

definition TempInitDir_walkFn :: "env \<Rightarrow> WalkFunc" where
  "TempInitDir_walkFn env fn fi er st =
     (case st of (dirs, w) \<Rightarrow>
        (case fi of
           None \<Rightarrow> Crash NilPanic (dirs, w)
         | Some i \<Rightarrow>
             if IsDir i then
               (case os_Chmod env fn 448 w of (err, w') \<Rightarrow>
                  if err \<noteq> None then Return err (dirs, w')
                  else Return None (dirs @ [fn], w'))
             else
               (case os_Remove env fn w of (err, w') \<Rightarrow> Return err (dirs, w'))))"

text \<open>
  The loop \<open>for i := len(dirs) - 1; i >= 0; i--\<close>: the counter of the model is \<open>i + 1\<close>,
  so that it is a natural number, and the loop starts at \<open>length dirs\<close>.
\<close>

fun TempInitDir_remove :: "env \<Rightarrow> string list \<Rightarrow> nat \<Rightarrow> world \<Rightarrow> (unit, world) outcome" where
  "TempInitDir_remove env dirs 0 w = Return () w"
| "TempInitDir_remove env dirs (Suc i) w =
     (case os_RemoveAll env (dirs ! i) w of (err, w') \<Rightarrow>
        (case err of
           Some e \<Rightarrow> Crash (LogFatal e) w'
         | None \<Rightarrow> TempInitDir_remove env dirs i w'))"

text \<open>A Go \<open>func()\<close> value is a function on the world; \<open>nil\<close> is \<open>None\<close>.\<close>

type_synonym teardown = "world \<Rightarrow> (unit, world) outcome"

fun run :: "teardown option \<Rightarrow> teardown" where
  "run None w = Crash NilPanic w"
| "run (Some f) w = f w"

text \<open>The function literal that \<open>TempInitDir\<close> returns, with the \<open>root\<close> it captured.\<close>

definition TempInitDir_cleanup :: "env \<Rightarrow> string \<Rightarrow> teardown" where
  "TempInitDir_cleanup env root w =
     (case filepath_Walk env root (TempInitDir_walkFn env) ([], w) of
        Crash c (dirs, w') \<Rightarrow> Crash c w'
      | Return err (dirs, w') \<Rightarrow>
          (case err of
             Some e \<Rightarrow> Crash (LogFatal e) w'
           | None \<Rightarrow> TempInitDir_remove env dirs (length dirs) w'))"

type_synonym handle = "string \<times> teardown option \<times> error option"

definition TempInitDir :: "env \<Rightarrow> world \<Rightarrow> (handle, world) outcome" where
  "TempInitDir env w =
     (case ioutil_TempDir env w of ((root, err), w1) \<Rightarrow>
        if err \<noteq> None then
          (case os_RemoveAll env root w1 of (ignored, w2) \<Rightarrow> Return ('''', None, err) w2)
        else Return (root, Some (TempInitDir_cleanup env root), None) w1)"

text \<open>
  The function literal that the two chdir variants return, with the \<open>wd\<close> and the
  \<open>cleanup\<close> it captured; the error of \<open>os.Chdir\<close> is dropped, as in the source.
\<close>

definition Chdir_cleanup :: "env \<Rightarrow> string \<Rightarrow> teardown option \<Rightarrow> teardown" where
  "Chdir_cleanup env wd cleanup w =
     (case os_Chdir env wd w of (ignored, w') \<Rightarrow> run cleanup w')"

definition TempInitChdir :: "env \<Rightarrow> world \<Rightarrow> (handle, world) outcome" where
  "TempInitChdir env w =
     after (TempInitDir env w) (\<lambda>(root, cleanup, err) w1.
       if err \<noteq> None then Return ('''', None, err) w1
       else (case os_Getwd env w1 of ((wd, err), w2) \<Rightarrow>
         if err \<noteq> None then after (run cleanup w2) (\<lambda>u. Return ('''', None, err))
         else (case os_Chdir env root w2 of (err, w3) \<Rightarrow>
           if err \<noteq> None then after (run cleanup w3) (\<lambda>u. Return ('''', None, err))
           else Return (wd, Some (Chdir_cleanup env wd cleanup), None) w3)))"

definition TempCloneDir :: "env \<Rightarrow> string \<Rightarrow> world \<Rightarrow> (handle, world) outcome" where
  "TempCloneDir env src w =
     after (TempInitDir env w) (\<lambda>(root, cleanup, err) w1.
       if err \<noteq> None then Return ('''', None, err) w1
       else (case TreeCopy env src root w1 of (err, w2) \<Rightarrow>
         if err \<noteq> None then after (run cleanup w2) (\<lambda>u. Return ('''', None, err))
         else Return (root, cleanup, None) w2))"

definition TempCloneChdir :: "env \<Rightarrow> string \<Rightarrow> world \<Rightarrow> (handle, world) outcome" where
  "TempCloneChdir env src w =
     after (TempCloneDir env src w) (\<lambda>(root, cleanup, err) w1.
       if err \<noteq> None then Return ('''', None, err) w1
       else (case os_Getwd env w1 of ((wd, err), w2) \<Rightarrow>
         if err \<noteq> None then after (run cleanup w2) (\<lambda>u. Return ('''', None, err))
         else (case os_Chdir env root w2 of (err, w3) \<Rightarrow>
           if err \<noteq> None then after (run cleanup w3) (\<lambda>u. Return ('''', None, err))
           else Return (wd, Some (Chdir_cleanup env wd cleanup), None) w3)))"

definition TempCreateChdir :: "env \<Rightarrow> Reader \<Rightarrow> world \<Rightarrow> (handle, world) outcome" where
  "TempCreateChdir env config w =
     after (TempInitChdir env w) (\<lambda>(old, cleanup, err) w1.
       if err \<noteq> None then Return ('''', None, err) w1
       else (case TreeCreate env config w1 of (err, w2) \<Rightarrow>
         if err \<noteq> None then after (run cleanup w2) (\<lambda>u. Return ('''', None, err))
         else Return (old, cleanup, None) w2))"

subsection \<open>The entries of a tree and the calls made for them\<close>







section \<open>Concrete inputs\<close>

text \<open>
  The bytes of a string; a descriptor of a regular file with mode \<open>0644\<close>, named by its
  path; and a file system with the two files \<open>left\<close> and \<open>right\<close>.
\<close>

definition bytes :: "string \<Rightarrow> byte list" where
  "bytes s = map of_char s"

definition descriptor :: "string \<Rightarrow> Time \<Rightarrow> FileInfoPath" where
  "descriptor p mt = \<lparr>Name = p, Size = 0, Mode = 420, ModTime = mt, IsDir = False, Path = p\<rparr>"

definition two_files :: "Reader \<Rightarrow> Reader \<Rightarrow> string \<Rightarrow> error + Reader" where
  "two_files l r p = (if p = ''left'' then Inr l else if p = ''right'' then Inr r
     else Inl (OSError ''no such file or directory''))"

definition read_error :: error where
  "read_error = OSError ''input/output error''"

text \<open>
  The \<open>FileInfo\<close> of an entry with a name; a tree with a file \<open>a\<close> and a directory
  \<open>d\<close> that holds a file \<open>b\<close>; an environment in which no call fails, every
  temporary directory is \<open>/tmp/t\<close> and holds that tree, and the collaborators do nothing;
  and a world to start from.
\<close>

definition file_info :: "string \<Rightarrow> bool \<Rightarrow> FileInfo" where
  "file_info name dir =
     \<lparr>Name = name, Size = 0, Mode = (if dir then ModeDir OR 320 else 256), ModTime = 0, IsDir = dir\<rparr>"

definition sample_tree :: node where
  "sample_tree = Node (file_info ''t'' True)
     [Node (file_info ''a'' False) [],
      Node (file_info ''d'' True) [Node (file_info ''b'' False) []]]"

definition quiet_env :: env where
  "quiet_env = \<lparr>fails = (\<lambda>c w. None), TempDir_name = (\<lambda>w. ''/tmp/t''),
     Lstat_tree = (\<lambda>path w. sample_tree),
     TreeCopy = (\<lambda>src dst w. (None, w)), TreeCreate = (\<lambda>config w. (None, w))\<rparr>"

definition start :: world where
  "start = \<lparr>cwd = ''/home'', calls = []\<rparr>"

text \<open>
  Environments in which one thing fails, with an input/output error: one call of the operating
  system, the tree copy, or the tree creation. \<open>teardown_calls\<close> are the calls that the
  teardown of \<open>/tmp/t\<close> makes when none of them fails.
\<close>

definition failing :: "call \<Rightarrow> env" where
  "failing c = quiet_env\<lparr>fails := (\<lambda>c' w. if c' = c then Some read_error else None)\<rparr>"

definition copy_fails :: env where
  "copy_fails = quiet_env\<lparr>TreeCopy := (\<lambda>src dst w. (Some read_error, w))\<rparr>"

definition create_fails :: env where
  "create_fails = quiet_env\<lparr>TreeCreate := (\<lambda>config w. (Some read_error, w))\<rparr>"

definition teardown_calls :: "call list" where
  "teardown_calls = [SysWalk ''/tmp/t'', SysChmod ''/tmp/t'' 448, SysRemove ''/tmp/t/a'',
     SysChmod ''/tmp/t/d'' 448, SysRemove ''/tmp/t/d/b'', SysRemoveAll ''/tmp/t/d'',
     SysRemoveAll ''/tmp/t'']"

section \<open>Properties of the content comparator\<close>

lemma loop_right_fails: "snd (fst (ReadByte rightBuf)) \<noteq> None \<Longrightarrow> ByContent_loop leftBuf rightBuf = False"
  by (subst ByContent_loop.simps) (auto split: prod.splits)


lemma loop_right_end: "ByContent_loop leftBuf (Reader [] e) = False"
  by (subst ByContent_loop.simps) simp

lemma loop_left_end: "ByContent_loop (Reader [] e) (Reader (y # ys) e') = True"
  by (subst ByContent_loop.simps) simp

lemma loop_step: "ByContent_loop (Reader (x # xs) e) (Reader (y # ys) e') =
   (if x = y then ByContent_loop (Reader xs e) (Reader ys e') else x < y)"
  by (subst ByContent_loop.simps) simp

lemma loop_common_prefix:
  "ByContent_loop (Reader (p @ xs) e) (Reader (p @ ys) e') = ByContent_loop (Reader xs e) (Reader ys e')"
  by (induction p) (simp_all add: loop_step)

lemma ByContent_opened:
  "files (Path left) = Inr leftBuf \<Longrightarrow> files (Path right) = Inr rightBuf \<Longrightarrow>
   ByContent t files left right = Returned (ByContent_loop leftBuf rightBuf)"
  by (simp add: ByContent_def)

text \<open>
  C3: each iteration reads the right stream first. When the right stream ends first, that is
  when the content of the right file is a prefix of the content of the left file (a strict
  prefix, or the same content, both files empty included), the rank function returns false, and
  so it does whenever the read of the right stream fails, whatever the left stream holds. When
  the left stream ends first, that is when the left content is a strict prefix of the right
  content, it returns true. Left \<open>ab\<close> against right \<open>a\<close> gives false.
\<close>

theorem ByContent_exhausted:
  assumes "files (Path left) = Inr (Reader l el)" and "files (Path right) = Inr (Reader r er)"
  shows "(l = r @ rest \<longrightarrow> ByContent t files left right = Returned False) \<and>
         (r = l @ rest \<and> rest \<noteq> [] \<longrightarrow> ByContent t files left right = Returned True) \<and>
         (snd (fst (ReadByte (Reader r er))) \<noteq> None \<longrightarrow> ByContent t files left right = Returned False) \<and>
         ByContent_loop (Reader (bytes ''ab'') EOF) (Reader (bytes ''a'') EOF) = False"
proof -
  have opened: "ByContent t files left right = Returned (ByContent_loop (Reader l el) (Reader r er))"
    using assms by (rule ByContent_opened)
  have right_prefix: "ByContent_loop (Reader (r @ rest) el) (Reader r er) = False"
    using loop_common_prefix [of r rest el "[]" er] by (simp add: loop_right_end)
  have left_prefix: "rest \<noteq> [] \<Longrightarrow> ByContent_loop (Reader l el) (Reader (l @ rest) er) = True"
    using loop_common_prefix [of l "[]" el rest er] by (cases rest) (simp_all add: loop_left_end)
  have ex: "ByContent_loop (Reader (bytes ''ab'') EOF) (Reader (bytes ''a'') EOF) = False"
    by (simp add: bytes_def loop_step loop_right_end)
  show ?thesis
    using opened right_prefix left_prefix ex loop_right_fails [of "Reader r er" "Reader l el"]
    by auto
qed

theorem ByContent_exhausted_witness:
  "ByContent () (two_files (Reader (bytes ''ab'') EOF) (Reader (bytes ''a'') EOF))
     (descriptor ''left'' 0) (descriptor ''right'' 0) = Returned False \<and>
   ByContent () (two_files (Reader (bytes ''a'') EOF) (Reader (bytes ''ab'') EOF))
     (descriptor ''left'' 0) (descriptor ''right'' 0) = Returned True \<and>
   ByContent () (two_files (Reader [] EOF) (Reader [] EOF))
     (descriptor ''left'' 0) (descriptor ''right'' 0) = Returned False"
  using
    ByContent_exhausted [where files = "two_files (Reader (bytes ''ab'') EOF) (Reader (bytes ''a'') EOF)"
      and left = "descriptor ''left'' 0" and right = "descriptor ''right'' 0"
      and l = "bytes ''ab''" and el = EOF and r = "bytes ''a''" and er = EOF and rest = "bytes ''b''" and t = "()"]
    ByContent_exhausted [where files = "two_files (Reader (bytes ''a'') EOF) (Reader (bytes ''ab'') EOF)"
      and left = "descriptor ''left'' 0" and right = "descriptor ''right'' 0"
      and l = "bytes ''a''" and el = EOF and r = "bytes ''ab''" and er = EOF and rest = "bytes ''b''" and t = "()"]
    ByContent_exhausted [where files = "two_files (Reader [] EOF) (Reader [] EOF)"
      and left = "descriptor ''left'' 0" and right = "descriptor ''right'' 0"
      and l = "[]" and el = EOF and r = "[]" and er = EOF and rest = "[]" and t = "()"]
  by (simp add: two_files_def descriptor_def bytes_def)

text \<open>
  C7: the first differing byte decides, whatever the lengths: when the two contents
  agree on a prefix \<open>p\<close> and then hold the different bytes \<open>x\<close> (left) and \<open>y\<close>
  (right), the rank function returns true exactly when \<open>x\<close> is numerically smaller than
  \<open>y\<close>, whatever follows on either side and however either stream ends. \<open>aaa\<close> and
  \<open>aaaa\<close> both rank below \<open>ab\<close>.
\<close>

theorem ByContent_first_difference:
  assumes "files (Path left) = Inr (Reader (p @ x # xs) el)"
    and "files (Path right) = Inr (Reader (p @ y # ys) er)"
    and "x \<noteq> y"
  shows "ByContent t files left right = Returned (x < y) \<and>
         ByContent_loop (Reader (bytes ''aaa'') EOF) (Reader (bytes ''ab'') EOF) = True \<and>
         ByContent_loop (Reader (bytes ''aaaa'') EOF) (Reader (bytes ''ab'') EOF) = True"
proof -
  have "ByContent_loop (Reader (p @ x # xs) el) (Reader (p @ y # ys) er) = (x < y)"
    using \<open>x \<noteq> y\<close> by (simp add: loop_common_prefix loop_step)
  moreover have "ByContent_loop (Reader (bytes ''aaa'') EOF) (Reader (bytes ''ab'') EOF) = True"
    by (simp add: bytes_def loop_step)
  moreover have "ByContent_loop (Reader (bytes ''aaaa'') EOF) (Reader (bytes ''ab'') EOF) = True"
    by (simp add: bytes_def loop_step)
  ultimately show ?thesis
    using ByContent_opened [OF assms(1,2)] by simp
qed

theorem ByContent_first_difference_witness:
  "ByContent () (two_files (Reader (bytes ''aaa'') EOF) (Reader (bytes ''ab'') EOF))
     (descriptor ''left'' 0) (descriptor ''right'' 0) = Returned True \<and>
   ByContent () (two_files (Reader (bytes ''ab'') EOF) (Reader (bytes ''aaa'') EOF))
     (descriptor ''left'' 0) (descriptor ''right'' 0) = Returned False"
  using
    ByContent_first_difference [where files = "two_files (Reader (bytes ''aaa'') EOF) (Reader (bytes ''ab'') EOF)"
      and left = "descriptor ''left'' 0" and right = "descriptor ''right'' 0"
      and p = "bytes ''a''" and x = 97 and xs = "bytes ''a''" and el = EOF
      and y = 98 and ys = "[]" and er = EOF and t = "()"]
    ByContent_first_difference [where files = "two_files (Reader (bytes ''ab'') EOF) (Reader (bytes ''aaa'') EOF)"
      and left = "descriptor ''left'' 0" and right = "descriptor ''right'' 0"
      and p = "bytes ''a''" and x = 98 and xs = "[]" and el = EOF
      and y = 97 and ys = "bytes ''a''" and er = EOF and t = "()"]
  by (simp add: two_files_def descriptor_def bytes_def)




section \<open>Properties of the composition\<close>

lemma Less_all_false:
  "\<forall>cmp \<in> set cmps. cmp left right = Returned False \<Longrightarrow> Less left right cmps = Returned False"
  by (induction cmps) simp_all

lemma Less_first_true:
  "\<forall>cmp \<in> set before. cmp left right = Returned False \<Longrightarrow> cmp left right = Returned True \<Longrightarrow>
   Less left right (before @ cmp # rest) = Returned True"
  by (induction before) simp_all

text \<open>
  C5: \<open>Less\<close> runs the chain from left to right. With an empty chain it returns
  false. When a rank function returns true and every function before it returned false,
  \<open>Less\<close> returns true whatever functions follow: they are not called, not even one that
  would end the test. When every function of the chain returns false, \<open>Less\<close> returns
  false.
\<close>

theorem Less_short_circuit:
  "(Less left right [] :: 't verdict) = Returned False \<and>
   ((\<forall>c \<in> set before. c left right = Returned False) \<and> cmp left right = Returned True \<longrightarrow>
      (Less left right (before @ cmp # rest) :: 't verdict) = Returned True) \<and>
   ((\<forall>c \<in> set cmps. c left right = Returned False) \<longrightarrow>
      (Less left right cmps :: 't verdict) = Returned False)"
  using Less_all_false [of cmps left right] Less_first_true [of before left right cmp rest]
  by simp

theorem Less_short_circuit_witness:
  "Less (descriptor ''a'' 0) (descriptor ''b'' 0) [ByDir, ByName, ByContent () (\<lambda>p. Inl read_error)]
     = (Returned True :: unit verdict) \<and>
   Less (descriptor ''b'' 0) (descriptor ''a'' 0) [ByDir, ByName] = (Returned False :: unit verdict)"
  using
    Less_short_circuit [where ?'t = unit and left = "descriptor ''a'' 0" and right = "descriptor ''b'' 0"
      and before = "[ByDir]" and cmp = ByName and rest = "[ByContent () (\<lambda>p. Inl read_error)]"
      and cmps = "[]"]
    Less_short_circuit [where ?'t = unit and left = "descriptor ''b'' 0" and right = "descriptor ''a'' 0"
      and before = "[]" and cmp = ByName and rest = "[]"
      and cmps = "[ByDir, ByName]"]
  by (simp add: descriptor_def ByDir_def ByName_def)

section \<open>Properties of the rank primitives\<close>







section \<open>Properties of the teardown\<close>




















section \<open>Properties of the lifecycle operations\<close>





lemma TempInitDir_created:
  "ioutil_TempDir env w = ((root, None), w1) \<Longrightarrow>
   TempInitDir env w = Return (root, Some (TempInitDir_cleanup env root), None) w1"
  by (simp add: TempInitDir_def)

lemma TempDir_created:
  "ioutil_TempDir env w = ((root, None), w1) \<Longrightarrow> root = TempDir_name env w \<and> w1 = record_call SysTempDir w"
  by (auto simp add: ioutil_TempDir_def split: option.splits)

lemma TempInitDir_cases:
  "TempInitDir env w = Return (TempDir_name env w, Some (TempInitDir_cleanup env (TempDir_name env w)), None)
       (record_call SysTempDir w) \<and> fails env SysTempDir w = None \<or>
   (\<exists>e w1. TempInitDir env w = Return ('''', None, Some e) w1)"
  by (cases "fails env SysTempDir w") (simp_all add: TempInitDir_def ioutil_TempDir_def os_RemoveAll_def)

lemma sample_teardown:
  assumes "\<forall>c \<in> set teardown_calls. \<forall>u. fails env c u = None"
    and "Lstat_tree env ''/tmp/t'' = (\<lambda>w. sample_tree)"
  shows "TempInitDir_cleanup env ''/tmp/t'' w = Return () (w\<lparr>calls := calls w @ teardown_calls\<rparr>)"
  using assms
  by (simp add: TempInitDir_cleanup_def filepath_Walk_def TempInitDir_walkFn_def os_Chmod_def
      os_Remove_def os_RemoveAll_def record_call_def sample_tree_def file_info_def
      teardown_calls_def Join_def numeral_2_eq_2)

lemma failing_teardown:
  "c \<notin> set teardown_calls \<Longrightarrow>
   TempInitDir_cleanup (failing c) ''/tmp/t'' w = Return () (w\<lparr>calls := calls w @ teardown_calls\<rparr>)"
  by (rule sample_teardown) (auto simp add: failing_def quiet_env_def)

lemma quiet_teardown:
  "TempInitDir_cleanup quiet_env ''/tmp/t'' w = Return () (w\<lparr>calls := calls w @ teardown_calls\<rparr>)"
  "TempInitDir_cleanup copy_fails ''/tmp/t'' w = Return () (w\<lparr>calls := calls w @ teardown_calls\<rparr>)"
  "TempInitDir_cleanup create_fails ''/tmp/t'' w = Return () (w\<lparr>calls := calls w @ teardown_calls\<rparr>)"
  by (rule sample_teardown; simp add: quiet_env_def copy_fails_def create_fails_def)+

lemma after_failure:
  "after oc (\<lambda>u. Return ('''', None, Some e)) = Return (p, td, err) v \<Longrightarrow>
   p = '''' \<and> td = None \<and> err = Some e"
  by (cases oc) simp_all

lemma TempInitDir_failure:
  "TempInitDir env w = Return (p, td, Some e) v \<Longrightarrow> p = '''' \<and> td = None"
  by (auto simp add: TempInitDir_def split: prod.splits if_splits)

lemma TempCloneDir_failure:
  "TempCloneDir env src w = Return (p, td, Some e) v \<Longrightarrow> p = '''' \<and> td = None"
  using TempInitDir_cases [of env w]
  by (auto simp add: TempCloneDir_def split: prod.splits if_splits dest: after_failure)

lemma TempInitChdir_failure:
  "TempInitChdir env w = Return (p, td, Some e) v \<Longrightarrow> p = '''' \<and> td = None"
  using TempInitDir_cases [of env w]
  by (auto simp add: TempInitChdir_def split: prod.splits if_splits dest: after_failure)

lemma TempCloneChdir_failure:
  "TempCloneChdir env src w = Return (p, td, Some e) v \<Longrightarrow> p = '''' \<and> td = None"
proof (cases "TempCloneDir env src w")
  case (Crash c w1)
  then show "TempCloneChdir env src w = Return (p, td, Some e) v \<Longrightarrow> p = '''' \<and> td = None"
    by (simp add: TempCloneChdir_def)
next
  case (Return h w1)
  then show "TempCloneChdir env src w = Return (p, td, Some e) v \<Longrightarrow> p = '''' \<and> td = None"
    by (cases h) (auto simp add: TempCloneChdir_def split: prod.splits if_splits dest: after_failure)
qed

lemma TempCreateChdir_failure:
  "TempCreateChdir env config w = Return (p, td, Some e) v \<Longrightarrow> p = '''' \<and> td = None"
proof (cases "TempInitChdir env w")
  case (Crash c w1)
  then show "TempCreateChdir env config w = Return (p, td, Some e) v \<Longrightarrow> p = '''' \<and> td = None"
    by (simp add: TempCreateChdir_def)
next
  case (Return h w1)
  then show "TempCreateChdir env config w = Return (p, td, Some e) v \<Longrightarrow> p = '''' \<and> td = None"
    by (cases h) (auto simp add: TempCreateChdir_def split: prod.splits if_splits dest: after_failure)
qed

text \<open>
  C1: in each operation of several steps, when a step fails after \<open>ioutil.TempDir\<close> has
  created the temporary directory, the operation runs the teardown it already holds, in the
  world that the failed step left, and then returns the empty path, a \<open>nil\<close> teardown and
  the error of the step (when the teardown itself ends the process, through
  \<open>log.Fatalln\<close>, nothing is returned). The steps are the tree copy in
  \<open>TempCloneDir\<close> and \<open>TempCloneChdir\<close>, \<open>Getwd\<close> and \<open>Chdir\<close> in
  \<open>TempInitChdir\<close>, \<open>TempCloneChdir\<close> and \<open>TempCreateChdir\<close>, and the tree
  creation in \<open>TempCreateChdir\<close>, where the teardown is the composite one. Whenever one of
  the four operations returns an error, the path is empty and the teardown is \<open>nil\<close>.
\<close>

theorem failure_runs_teardown:
  assumes created: "ioutil_TempDir env w = ((root, None), w1)"
  shows
    "(TreeCopy env src root w1 = (Some e, w2) \<longrightarrow>
        TempCloneDir env src w =
          after (TempInitDir_cleanup env root w2) (\<lambda>u. Return ('''', None, Some e)) \<and>
        TempCloneChdir env src w =
          after (TempInitDir_cleanup env root w2) (\<lambda>u. Return ('''', None, Some e))) \<and>
     (TreeCopy env src root w1 = (None, w2) \<and> os_Getwd env w2 = ((wd, Some e), w3) \<longrightarrow>
        TempCloneChdir env src w =
          after (TempInitDir_cleanup env root w3) (\<lambda>u. Return ('''', None, Some e))) \<and>
     (TreeCopy env src root w1 = (None, w2) \<and> os_Getwd env w2 = ((wd, None), w3) \<and>
      os_Chdir env root w3 = (Some e, w4) \<longrightarrow>
        TempCloneChdir env src w =
          after (TempInitDir_cleanup env root w4) (\<lambda>u. Return ('''', None, Some e))) \<and>
     (os_Getwd env w1 = ((wd, Some e), w2) \<longrightarrow>
        TempInitChdir env w =
          after (TempInitDir_cleanup env root w2) (\<lambda>u. Return ('''', None, Some e)) \<and>
        TempCreateChdir env config w =
          after (TempInitDir_cleanup env root w2) (\<lambda>u. Return ('''', None, Some e))) \<and>
     (os_Getwd env w1 = ((wd, None), w2) \<and> os_Chdir env root w2 = (Some e, w3) \<longrightarrow>
        TempInitChdir env w =
          after (TempInitDir_cleanup env root w3) (\<lambda>u. Return ('''', None, Some e)) \<and>
        TempCreateChdir env config w =
          after (TempInitDir_cleanup env root w3) (\<lambda>u. Return ('''', None, Some e))) \<and>
     (os_Getwd env w1 = ((wd, None), w2) \<and> os_Chdir env root w2 = (None, w3) \<and>
      TreeCreate env config w3 = (Some e, w4) \<longrightarrow>
        TempCreateChdir env config w =
          after (Chdir_cleanup env wd (Some (TempInitDir_cleanup env root)) w4)
            (\<lambda>u. Return ('''', None, Some e))) \<and>
     (TempCloneDir env src w = Return (p, td, Some e) v \<or>
      TempInitChdir env w = Return (p, td, Some e) v \<or>
      TempCloneChdir env src w = Return (p, td, Some e) v \<or>
      TempCreateChdir env config w = Return (p, td, Some e) v \<longrightarrow> p = '''' \<and> td = None)"
proof -
  note init = TempInitDir_created [OF created]
  have cloned: "TempCloneDir env src w = Return (root, Some (TempInitDir_cleanup env root), None) w2"
    if "TreeCopy env src root w1 = (None, w2)"
    using that init by (simp add: TempCloneDir_def)
  have passed_on: "TempCreateChdir env config w = after oc (\<lambda>u. Return ('''', None, Some e))"
    if "TempInitChdir env w = after oc (\<lambda>u. Return ('''', None, Some e))" for oc :: "(unit, world) outcome"
    using that by (cases oc) (simp_all add: TempCreateChdir_def)
  have 1: "TreeCopy env src root w1 = (Some e, w2) \<longrightarrow>
        TempCloneDir env src w =
          after (TempInitDir_cleanup env root w2) (\<lambda>u. Return ('''', None, Some e)) \<and>
        TempCloneChdir env src w =
          after (TempInitDir_cleanup env root w2) (\<lambda>u. Return ('''', None, Some e))"
  proof
    assume "TreeCopy env src root w1 = (Some e, w2)"
    with init have "TempCloneDir env src w =
        after (TempInitDir_cleanup env root w2) (\<lambda>u. Return ('''', None, Some e))"
      by (simp add: TempCloneDir_def)
    moreover from this have "TempCloneChdir env src w =
        after (TempInitDir_cleanup env root w2) (\<lambda>u. Return ('''', None, Some e))"
      by (cases "TempInitDir_cleanup env root w2") (simp_all add: TempCloneChdir_def)
    ultimately show "TempCloneDir env src w =
          after (TempInitDir_cleanup env root w2) (\<lambda>u. Return ('''', None, Some e)) \<and>
        TempCloneChdir env src w =
          after (TempInitDir_cleanup env root w2) (\<lambda>u. Return ('''', None, Some e))"
      by (rule conjI)
  qed
  have 2: "TreeCopy env src root w1 = (None, w2) \<and> os_Getwd env w2 = ((wd, Some e), w3) \<longrightarrow>
        TempCloneChdir env src w =
          after (TempInitDir_cleanup env root w3) (\<lambda>u. Return ('''', None, Some e))"
    using cloned by (simp add: TempCloneChdir_def)
  have 3: "TreeCopy env src root w1 = (None, w2) \<and> os_Getwd env w2 = ((wd, None), w3) \<and>
      os_Chdir env root w3 = (Some e, w4) \<longrightarrow>
        TempCloneChdir env src w =
          after (TempInitDir_cleanup env root w4) (\<lambda>u. Return ('''', None, Some e))"
    using cloned by (simp add: TempCloneChdir_def)
  have 4: "os_Getwd env w1 = ((wd, Some e), w2) \<longrightarrow>
        TempInitChdir env w =
          after (TempInitDir_cleanup env root w2) (\<lambda>u. Return ('''', None, Some e)) \<and>
        TempCreateChdir env config w =
          after (TempInitDir_cleanup env root w2) (\<lambda>u. Return ('''', None, Some e))"
  proof
    assume "os_Getwd env w1 = ((wd, Some e), w2)"
    with init have "TempInitChdir env w =
        after (TempInitDir_cleanup env root w2) (\<lambda>u. Return ('''', None, Some e))"
      by (simp add: TempInitChdir_def)
    then show "TempInitChdir env w =
          after (TempInitDir_cleanup env root w2) (\<lambda>u. Return ('''', None, Some e)) \<and>
        TempCreateChdir env config w =
          after (TempInitDir_cleanup env root w2) (\<lambda>u. Return ('''', None, Some e))"
      using passed_on by (intro conjI)
  qed
  have 5: "os_Getwd env w1 = ((wd, None), w2) \<and> os_Chdir env root w2 = (Some e, w3) \<longrightarrow>
        TempInitChdir env w =
          after (TempInitDir_cleanup env root w3) (\<lambda>u. Return ('''', None, Some e)) \<and>
        TempCreateChdir env config w =
          after (TempInitDir_cleanup env root w3) (\<lambda>u. Return ('''', None, Some e))"
  proof
    assume "os_Getwd env w1 = ((wd, None), w2) \<and> os_Chdir env root w2 = (Some e, w3)"
    with init have "TempInitChdir env w =
        after (TempInitDir_cleanup env root w3) (\<lambda>u. Return ('''', None, Some e))"
      by (simp add: TempInitChdir_def)
    then show "TempInitChdir env w =
          after (TempInitDir_cleanup env root w3) (\<lambda>u. Return ('''', None, Some e)) \<and>
        TempCreateChdir env config w =
          after (TempInitDir_cleanup env root w3) (\<lambda>u. Return ('''', None, Some e))"
      using passed_on by (intro conjI)
  qed
  have 6: "os_Getwd env w1 = ((wd, None), w2) \<and> os_Chdir env root w2 = (None, w3) \<and>
      TreeCreate env config w3 = (Some e, w4) \<longrightarrow>
        TempCreateChdir env config w =
          after (Chdir_cleanup env wd (Some (TempInitDir_cleanup env root)) w4)
            (\<lambda>u. Return ('''', None, Some e))"
    using init by (simp add: TempCreateChdir_def TempInitChdir_def)
  have 7: "TempCloneDir env src w = Return (p, td, Some e) v \<or>
      TempInitChdir env w = Return (p, td, Some e) v \<or>
      TempCloneChdir env src w = Return (p, td, Some e) v \<or>
      TempCreateChdir env config w = Return (p, td, Some e) v \<longrightarrow> p = '''' \<and> td = None"
    by (intro impI, elim disjE)
      (rule TempCloneDir_failure TempInitChdir_failure TempCloneChdir_failure
        TempCreateChdir_failure; assumption)+
  from 1 2 3 4 5 6 7 show ?thesis
    by (intro conjI)
qed

theorem failure_runs_teardown_witness:
  "TempCloneDir copy_fails ''src'' start = Return ('''', None, Some read_error)
     \<lparr>cwd = ''/home'', calls = SysTempDir # teardown_calls\<rparr> \<and>
   TempCloneChdir (failing SysGetwd) ''src'' start = Return ('''', None, Some read_error)
     \<lparr>cwd = ''/home'', calls = [SysTempDir, SysGetwd] @ teardown_calls\<rparr> \<and>
   TempInitChdir (failing SysGetwd) start = Return ('''', None, Some read_error)
     \<lparr>cwd = ''/home'', calls = [SysTempDir, SysGetwd] @ teardown_calls\<rparr> \<and>
   TempInitChdir (failing (SysChdir ''/tmp/t'')) start = Return ('''', None, Some read_error)
     \<lparr>cwd = ''/home'', calls = [SysTempDir, SysGetwd, SysChdir ''/tmp/t''] @ teardown_calls\<rparr> \<and>
   TempCreateChdir create_fails (Reader [] EOF) start = Return ('''', None, Some read_error)
     \<lparr>cwd = ''/home'',
       calls = [SysTempDir, SysGetwd, SysChdir ''/tmp/t'', SysChdir ''/home''] @ teardown_calls\<rparr>"
proof -
  let ?w1 = "\<lparr>cwd = ''/home'', calls = [SysTempDir]\<rparr>"
  let ?w2 = "\<lparr>cwd = ''/home'', calls = [SysTempDir, SysGetwd]\<rparr>"
  let ?w3 = "\<lparr>cwd = ''/home'', calls = [SysTempDir, SysGetwd, SysChdir ''/tmp/t'']\<rparr>"
  let ?w3' = "\<lparr>cwd = ''/tmp/t'', calls = [SysTempDir, SysGetwd, SysChdir ''/tmp/t'']\<rparr>"
  have created: "ioutil_TempDir copy_fails start = ((''/tmp/t'', None), ?w1)"
    "ioutil_TempDir (failing SysGetwd) start = ((''/tmp/t'', None), ?w1)"
    "ioutil_TempDir (failing (SysChdir ''/tmp/t'')) start = ((''/tmp/t'', None), ?w1)"
    "ioutil_TempDir create_fails start = ((''/tmp/t'', None), ?w1)"
    by (simp_all add: ioutil_TempDir_def record_call_def copy_fails_def failing_def create_fails_def
        quiet_env_def start_def)
  have 1: "TempCloneDir copy_fails ''src'' start = Return ('''', None, Some read_error)
     \<lparr>cwd = ''/home'', calls = SysTempDir # teardown_calls\<rparr>"
    using failure_runs_teardown [OF created(1), of "''src''" read_error ?w1]
    by (simp add: quiet_teardown) (simp add: copy_fails_def quiet_env_def)
  have 2: "TempCloneChdir (failing SysGetwd) ''src'' start = Return ('''', None, Some read_error)
     \<lparr>cwd = ''/home'', calls = [SysTempDir, SysGetwd] @ teardown_calls\<rparr>"
    using failure_runs_teardown [OF created(2), where src = "''src''" and ?w2.0 = ?w1
        and wd = "''''" and e = read_error and ?w3.0 = ?w2]
    by (simp add: failing_teardown teardown_calls_def)
      (simp add: failing_def quiet_env_def os_Getwd_def record_call_def)
  have 3: "TempInitChdir (failing SysGetwd) start = Return ('''', None, Some read_error)
     \<lparr>cwd = ''/home'', calls = [SysTempDir, SysGetwd] @ teardown_calls\<rparr>"
    using failure_runs_teardown [OF created(2), where wd = "''''" and e = read_error and ?w2.0 = ?w2]
    by (simp add: failing_teardown teardown_calls_def)
      (simp add: failing_def quiet_env_def os_Getwd_def record_call_def)
  have 4: "TempInitChdir (failing (SysChdir ''/tmp/t'')) start = Return ('''', None, Some read_error)
     \<lparr>cwd = ''/home'', calls = [SysTempDir, SysGetwd, SysChdir ''/tmp/t''] @ teardown_calls\<rparr>"
    using failure_runs_teardown [OF created(3), where wd = "''/home''" and e = read_error
        and ?w2.0 = ?w2 and ?w3.0 = ?w3]
    by (simp add: failing_teardown teardown_calls_def)
      (simp add: failing_def quiet_env_def os_Getwd_def os_Chdir_def record_call_def)
  have 5: "TempCreateChdir create_fails (Reader [] EOF) start = Return ('''', None, Some read_error)
     \<lparr>cwd = ''/home'',
       calls = [SysTempDir, SysGetwd, SysChdir ''/tmp/t'', SysChdir ''/home''] @ teardown_calls\<rparr>"
    using failure_runs_teardown [OF created(4), where wd = "''/home''" and e = read_error
        and ?w2.0 = ?w2 and ?w3.0 = ?w3' and ?w4.0 = ?w3' and config = "Reader [] EOF"]
    by (simp add: Chdir_cleanup_def quiet_teardown)
      (simp add: create_fails_def quiet_env_def os_Getwd_def os_Chdir_def record_call_def)
  from 1 2 3 4 5 show ?thesis by (intro conjI)
qed







end
